theory Spec2Isabelle
  imports Complex_Main "HOL-Library.AList"
begin

section \<open>JavaScript numbers and helpers\<close>

text \<open>
  The program is JavaScript. Its numbers are modelled as reals: every comparison and
  threshold of the code is read on finite, non-NaN numbers. A value that may be
  \<^verbatim>\<open>null\<close> (or \<^verbatim>\<open>undefined\<close>) is an \<open>option\<close>, \<open>None\<close> being the absent value.
\<close>

text \<open>\<^verbatim>\<open>Math.round\<close>: the nearest integer, a tie going up.\<close>

definition Math_round :: "real \<Rightarrow> int" where
  "Math_round x = \<lfloor>x + 1 / 2\<rfloor>"

text \<open>The remainder operator \<^verbatim>\<open>%\<close> on numbers: the quotient is truncated towards zero.\<close>

definition js_rem :: "real \<Rightarrow> real \<Rightarrow> real" where
  "js_rem x y = x - y * of_int (if 0 \<le> x / y then \<lfloor>x / y\<rfloor> else \<lceil>x / y\<rceil>)"

text \<open>\<^verbatim>\<open>%\<close> on integer-valued numbers.\<close>

definition js_rem_int :: "int \<Rightarrow> int \<Rightarrow> int" where
  "js_rem_int a b = (if 0 \<le> a then a mod b else - ((- a) mod b))"

text \<open>Reading an array at an index: \<open>None\<close> is \<^verbatim>\<open>undefined\<close>, out of range.\<close>

definition js_index :: "'a list \<Rightarrow> int \<Rightarrow> 'a option" where
  "js_index xs i = (if 0 \<le> i \<and> i < int (length xs) then Some (xs ! nat i) else None)"

text \<open>\<^verbatim>\<open>x || d\<close> on a nullable number: \<^verbatim>\<open>null\<close> and \<^verbatim>\<open>0\<close> are falsy.\<close>

definition num_or :: "real option \<Rightarrow> real \<Rightarrow> real" where
  "num_or x d = (case x of None \<Rightarrow> d | Some v \<Rightarrow> if v = 0 then d else v)"

text \<open>Truthiness of a nullable number.\<close>

definition truthy_num :: "real option \<Rightarrow> bool" where
  "truthy_num x = (case x of None \<Rightarrow> False | Some v \<Rightarrow> v \<noteq> 0)"

text \<open>\<^verbatim>\<open>round(value, decimals)\<close> of units.js.\<close>

definition round_js :: "real \<Rightarrow> nat \<Rightarrow> real" where
  "round_js v decimals =
     (let multiplier = 10 ^ decimals in of_int (Math_round (v * multiplier)) / multiplier)"

section \<open>Unit conversion: degreesToCardinal (units.js)\<close>

definition directions :: "string list" where
  "directions =
     [''N'', ''NNE'', ''NE'', ''ENE'',
      ''E'', ''ESE'', ''SE'', ''SSE'',
      ''S'', ''SSW'', ''SW'', ''WSW'',
      ''W'', ''WNW'', ''NW'', ''NNW'']"

definition normalizeDegrees :: "real \<Rightarrow> real" where
  "normalizeDegrees degrees =
     (let d = js_rem degrees 360 in if d < 0 then d + 360 else d)"

definition degreesToCardinal :: "real option \<Rightarrow> string option" where
  "degreesToCardinal degrees =
     (case degrees of
        None \<Rightarrow> Some ''Unknown''
      | Some d0 \<Rightarrow>
          (let d = normalizeDegrees d0;
               index = js_rem_int (Math_round ((d + 11.25) / 22.5)) 16
           in js_index directions index))"

section \<open>Fire weather calculations (calculations.js)\<close>

definition calculateEquilibriumMoistureContent :: "real \<Rightarrow> real \<Rightarrow> real" where
  "calculateEquilibriumMoistureContent temperature relativeHumidity =
     (let rh = relativeHumidity / 100 in
      if rh \<ge> 0.1 \<and> rh \<le> 1.0 then
        (let term1 = 0.942 * (rh powr 0.679);
             term2 = (0.000499 * exp (0.1 * rh))
                     + 0.18 * (21.1 - temperature) * (1 - exp (- 0.115 * rh))
         in term1 + term2)
      else 0)"

definition fosberg_eta :: "real \<Rightarrow> real \<Rightarrow> real" where
  "fosberg_eta emc temperature =
     (if emc \<le> 10 then 0.03229 + 0.281073 * emc - 0.000578 * emc * temperature
      else 2.22749 + 0.160107 * emc - 0.01478 * temperature)"

definition calculateFosbergFFWI :: "real option \<Rightarrow> real option \<Rightarrow> real option \<Rightarrow> int option" where
  "calculateFosbergFFWI temperature relativeHumidity windSpeed =
     (case (temperature, relativeHumidity, windSpeed) of
        (Some t, Some rh0, Some ws0) \<Rightarrow>
          (let rh = max 1 (min 100 rh0);
               ws = max 0 ws0;
               emc = calculateEquilibriumMoistureContent t rh;
               eta = fosberg_eta emc t;
               ffwi = eta * sqrt (1 + ws * ws)
           in Some (Math_round ffwi))
      | _ \<Rightarrow> None)"

definition calculateHainesIndex :: "real option \<Rightarrow> real option \<Rightarrow> real option \<Rightarrow> int option" where
  "calculateHainesIndex temperature relativeHumidity elevation =
     (case (temperature, relativeHumidity) of
        (Some t, Some rh) \<Rightarrow>
          (let stabilityComponent = (if t \<ge> 90 then 3 else if t \<ge> 75 then 2 else 1);
               moistureComponent = (if rh \<le> 20 then 3 else if rh \<le> 40 then 2 else 1)
           in Some (stabilityComponent + moistureComponent))
      | _ \<Rightarrow> None)"

definition calculateChandlerBurningIndex :: "real option \<Rightarrow> real option \<Rightarrow> real option \<Rightarrow> int option" where
  "calculateChandlerBurningIndex temperature relativeHumidity fuelMoisture =
     (case (temperature, relativeHumidity) of
        (Some t, Some rh) \<Rightarrow>
          (let fm = (case fuelMoisture of
                       None \<Rightarrow> calculateEquilibriumMoistureContent t rh
                     | Some f \<Rightarrow> f);
               term1 = (110 - 1.373 * rh) - 0.54 * (10.20 - (t - 32) * 5 / 9);
               term2 = 124 * (10 powr (- 0.0142 * fm));
               cbi = term1 * term2 / 60
           in Some (max 0 (Math_round cbi)))
      | _ \<Rightarrow> None)"

definition isRedFlagConditions :: "real option \<Rightarrow> real option \<Rightarrow> bool \<Rightarrow> bool" where
  "isRedFlagConditions relativeHumidity windSpeed strict =
     (case (relativeHumidity, windSpeed) of
        (Some rh, Some ws) \<Rightarrow>
          (if strict then rh < 15 \<and> ws > 25
           else (rh < 15 \<and> ws > 25) \<or> (rh < 20 \<and> ws > 20))
      | _ \<Rightarrow> False)"

datatype danger_class = Low | Moderate | High | VeryHigh | Extreme

text \<open>The banding on the Chandler value, the last \<^verbatim>\<open>if\<close> chain of the function.\<close>

definition cbi_band :: "int \<Rightarrow> danger_class" where
  "cbi_band cbi =
     (if cbi \<ge> 90 then Extreme
      else if cbi \<ge> 75 then VeryHigh
      else if cbi \<ge> 50 then High
      else if cbi \<ge> 25 then Moderate
      else Low)"

text \<open>
  \<^verbatim>\<open>calculateFireDangerClass(conditions)\<close>. The object is destructured on entry, so the
  model takes its four fields as arguments: temperature, humidity and wind speed are
  numbers (the tool validates them before the call), fuel moisture is optional. The
  fuel-moisture test is \<^verbatim>\<open>fuelMoisture && fuelMoisture < 5\<close>, a truthiness test; the
  red-flag test is called without its third argument, whose default is
  \<^verbatim>\<open>strict = false\<close>. The Fosberg value the function also computes is never read.
\<close>

definition calculateFireDangerClass :: "real \<Rightarrow> real \<Rightarrow> real \<Rightarrow> real option \<Rightarrow> danger_class" where
  "calculateFireDangerClass temperature relativeHumidity windSpeed fuelMoisture =
     (let cbi = calculateChandlerBurningIndex
                  (Some temperature) (Some relativeHumidity) fuelMoisture
      in
      if relativeHumidity < 10
         \<or> (case fuelMoisture of None \<Rightarrow> False | Some f \<Rightarrow> f \<noteq> 0 \<and> f < 5) then Extreme
      else if isRedFlagConditions (Some relativeHumidity) (Some windSpeed) False
        then Extreme
      else (case cbi of Some v \<Rightarrow> cbi_band v | None \<Rightarrow> Low))"

section \<open>The cache (cache.js)\<close>

text \<open>
  The store is a JavaScript \<^verbatim>\<open>Map\<close>: an association list in insertion order, with
  \<open>AList.update\<close> for \<^verbatim>\<open>Map.set\<close> (an existing key keeps its place, a new key goes
  last) and \<open>AList.delete\<close> for \<^verbatim>\<open>Map.delete\<close>. Every reading of \<^verbatim>\<open>Date.now()\<close>
  inside one synchronous method is the argument \<open>now\<close>, in milliseconds.
\<close>

record 'v entry =
  entry_value :: 'v
  createdAt :: int
  lastAccessed :: int
  expiresAt :: int
  hits :: nat

record 'v cache =
  store :: "(string \<times> 'v entry) list"
  maxSize :: int
  defaultTTL :: int

definition Cache_get :: "int \<Rightarrow> string \<Rightarrow> 'v cache \<Rightarrow> 'v option \<times> 'v cache" where
  "Cache_get now key c =
     (case map_of (store c) key of
        None \<Rightarrow> (None, c)
      | Some e \<Rightarrow>
          if now > expiresAt e
          then (None, c\<lparr>store := AList.delete key (store c)\<rparr>)
          else (Some (entry_value e),
                c\<lparr>store := AList.update key (e\<lparr>hits := hits e + 1, lastAccessed := now\<rparr>) (store c)\<rparr>))"

definition Cache_has :: "int \<Rightarrow> string \<Rightarrow> 'v cache \<Rightarrow> bool \<times> 'v cache" where
  "Cache_has now key c =
     (case map_of (store c) key of
        None \<Rightarrow> (False, c)
      | Some e \<Rightarrow>
          if now > expiresAt e
          then (False, c\<lparr>store := AList.delete key (store c)\<rparr>)
          else (True, c))"

text \<open>
  The loop of \<^verbatim>\<open>_evictLRU\<close> over the entries, with \<^verbatim>\<open>oldestKey\<close> and
  \<^verbatim>\<open>oldestTime\<close>; \<open>None\<close> is the initial \<^verbatim>\<open>null\<close>, respectively \<^verbatim>\<open>Infinity\<close>.
\<close>

fun lru_scan :: "(string \<times> 'v entry) list \<Rightarrow> string option \<Rightarrow> int option \<Rightarrow> string option" where
  "lru_scan [] oldestKey oldestTime = oldestKey"
| "lru_scan ((key, e) # rest) oldestKey oldestTime =
     (if (case oldestTime of None \<Rightarrow> True | Some t \<Rightarrow> lastAccessed e < t)
      then lru_scan rest (Some key) (Some (lastAccessed e))
      else lru_scan rest oldestKey oldestTime)"

text \<open>\<^verbatim>\<open>if (oldestKey)\<close> is a truthiness test: \<^verbatim>\<open>null\<close> and the empty string fail it.\<close>

definition evictLRU :: "'v cache \<Rightarrow> 'v cache" where
  "evictLRU c =
     (case lru_scan (store c) None None of
        None \<Rightarrow> c
      | Some oldestKey \<Rightarrow>
          if oldestKey = [] then c
          else c\<lparr>store := AList.delete oldestKey (store c)\<rparr>)"

text \<open>\<^verbatim>\<open>ttl || this.defaultTTL\<close>: an absent or zero \<^verbatim>\<open>ttl\<close> gives the default.\<close>

definition Cache_set :: "int \<Rightarrow> string \<Rightarrow> 'v \<Rightarrow> int option \<Rightarrow> 'v cache \<Rightarrow> 'v cache" where
  "Cache_set now key v ttl c =
     (let c1 = (if int (length (store c)) \<ge> maxSize c \<and> key \<notin> set (map fst (store c))
                then evictLRU c else c);
          e = \<lparr>entry_value = v, createdAt = now, lastAccessed = now,
               expiresAt = now + (case ttl of None \<Rightarrow> defaultTTL c
                                   | Some t \<Rightarrow> if t = 0 then defaultTTL c else t),
               hits = 0\<rparr>
      in c1\<lparr>store := AList.update key e (store c1)\<rparr>)"

record cache_stats =
  stats_size :: nat
  stats_maxSize :: int
  totalHits :: nat
  activeEntries :: nat
  expiredEntries :: nat

definition getStats :: "int \<Rightarrow> 'v cache \<Rightarrow> cache_stats" where
  "getStats now c =
     (let entries = map snd (store c) in
      \<lparr>stats_size = length (store c),
       stats_maxSize = maxSize c,
       totalHits = sum_list (map hits entries),
       activeEntries = length (filter (\<lambda>e. now < expiresAt e) entries),
       expiredEntries = length (filter (\<lambda>e. now \<ge> expiresAt e) entries)\<rparr>)"

section \<open>The client coordinator (client-manager.js)\<close>

text \<open>
  A client's \<^verbatim>\<open>getCurrentObservation(stationId)\<close> either returns the station's data or
  throws; what it throws is an \<open>api_error\<close>. \<open>AllSourcesFailed\<close> is the coordinator's own
  \<^verbatim>\<open>new Error('All data sources failed')\<close>.
\<close>

datatype api_error = ClientError string | AllSourcesFailed

record 'd api_client =
  isAvailable :: bool
  fetchCurrent :: "string \<Rightarrow> api_error + 'd"

text \<open>The constructor: the two clients in their fixed order, the unavailable ones left out.\<close>

definition availableClients :: "'d api_client \<Rightarrow> 'd api_client \<Rightarrow> (string \<times> 'd api_client) list" where
  "availableClients synopticClient mesowestClient =
     filter (\<lambda>(name, client). isAvailable client)
       [(''synoptic'', synopticClient), (''mesowest'', mesowestClient)]"

text \<open>The object \<^verbatim>\<open>{...data, _meta: {source, cached, timestamp}}\<close>.\<close>

record 'd sourced =
  payload :: 'd
  meta_source :: string
  meta_cached :: bool
  meta_timestamp :: int

text \<open>
  The failover loop. \<open>lastError\<close> is the variable of the source; \<open>asked\<close> records, in
  order, the name of every client whose \<^verbatim>\<open>getCurrentObservation\<close> the loop has called.
  The loop ends at the first client that returns.
\<close>

fun tryClients ::
  "(string \<times> 'd api_client) list \<Rightarrow> string \<Rightarrow> api_error option \<Rightarrow> string list
     \<Rightarrow> (api_error + (string \<times> 'd)) \<times> string list" where
  "tryClients [] stationId lastError asked =
     (Inl (case lastError of None \<Rightarrow> AllSourcesFailed | Some e \<Rightarrow> e), asked)"
| "tryClients ((name, client) # rest) stationId lastError asked =
     (case fetchCurrent client stationId of
        Inr d \<Rightarrow> (Inr (name, d), asked @ [name])
      | Inl e \<Rightarrow> tryClients rest stationId (Some e) (asked @ [name]))"

text \<open>The cache key \<^verbatim>\<open>`current:${stationId}`\<close>.\<close>

definition currentKey :: "string \<Rightarrow> string" where
  "currentKey stationId = ''current:'' @ stationId"

text \<open>
  \<^verbatim>\<open>getCurrentObservation\<close>: \<open>t0\<close> is the time of the cache lookup, \<open>t1\<close> the time
  after the awaited fetch, read by \<^verbatim>\<open>new Date()\<close> and by \<^verbatim>\<open>cache.set\<close>. The result is
  what the call returns or throws, the cache after it, and the clients asked.
\<close>

definition getCurrentObservation ::
  "(string \<times> 'd api_client) list \<Rightarrow> int \<Rightarrow> int \<Rightarrow> string \<Rightarrow> 'd sourced cache
     \<Rightarrow> (api_error + 'd sourced) \<times> 'd sourced cache \<times> string list" where
  "getCurrentObservation clients t0 t1 stationId c =
     (let cacheKey = currentKey stationId;
          (cached, c1) = Cache_get t0 cacheKey c
      in case cached of
           Some r \<Rightarrow> (Inr r, c1, [])
         | None \<Rightarrow>
             (case tryClients clients stationId None [] of
                (Inr (name, d), asked) \<Rightarrow>
                  (let result = \<lparr>payload = d, meta_source = name, meta_cached = False,
                                  meta_timestamp = t1\<rparr>
                   in (Inr result, Cache_set t1 cacheKey result (Some 300000) c1, asked))
              | (Inl e, asked) \<Rightarrow> (Inl e, c1, asked)))"

section \<open>Weather utilities (weather.js)\<close>

definition estimateProbabilityOfRain :: "real \<Rightarrow> real \<Rightarrow> real option \<Rightarrow> real" where
  "estimateProbabilityOfRain relativeHumidity recentPrecip temperature =
     (let p1 = (if relativeHumidity \<ge> 90 then 60
                else if relativeHumidity \<ge> 80 then 40
                else if relativeHumidity \<ge> 70 then 20
                else if relativeHumidity \<ge> 60 then 10
                else 0);
          p2 = (if recentPrecip > 0.1 then p1 + 20
                else if recentPrecip > 0.01 then p1 + 10
                else p1);
          p3 = (case temperature of
                  None \<Rightarrow> p2
                | Some t \<Rightarrow> if t < 32 then max 0 (p2 - 10) else p2)
      in min 100 p3)"

definition estimateWindGust :: "real option \<Rightarrow> real" where
  "estimateWindGust windSpeed =
     (case windSpeed of
        None \<Rightarrow> 0
      | Some ws \<Rightarrow> if ws = 0 then 0 else of_int (Math_round (ws * 1.5)))"

text \<open>
  A template literal is kept as its parts, literal text and interpolated numbers, so that
  no number formatting is modelled.
\<close>

datatype piece = Lit string | Num real

type_synonym text_parts = "piece list"

text \<open>
  An element of a historical series, as \<^verbatim>\<open>detectExtremeChanges\<close> reads it: the fields
  \<^verbatim>\<open>timestamp\<close> (as \<^verbatim>\<open>new Date(timestamp)\<close> reads it, in milliseconds),
  \<^verbatim>\<open>windSpeed\<close>, \<^verbatim>\<open>humidity\<close> and \<^verbatim>\<open>temperature\<close>, taken as numbers.
\<close>

record series_obs =
  ts_timestamp :: int
  ts_windSpeed :: real
  ts_humidity :: real
  ts_temperature :: real

text \<open>
  The objects that reach the \<^verbatim>\<open>extreme_changes\<close> array have one of two shapes:
  \<^verbatim>\<open>{type, value, time, description}\<close>, built by \<^verbatim>\<open>detectExtremeChanges\<close>, and
  \<^verbatim>\<open>{parameter, change, magnitude, time_frame}\<close>, built by the transformer.
\<close>

datatype change_entry =
    Detected string real int text_parts
  | Change string string text_parts string

text \<open>
  The body of the loop of \<^verbatim>\<open>detectExtremeChanges\<close> for one pair of neighbours. The
  degree sign of the temperature text is the character of code point 0xB0. The minutes
  are rounded from the exact product, where binary64 may round a product that is a tie
  in the reals to the other side.
\<close>

definition pair_changes :: "series_obs \<Rightarrow> series_obs \<Rightarrow> change_entry list" where
  "pair_changes current next =
     (let timeDiff = real_of_int (ts_timestamp next - ts_timestamp current) / (1000 * 60 * 60) in
      if timeDiff \<le> 3 \<and> timeDiff > 0 then
        (if ts_windSpeed next - ts_windSpeed current > 15
         then [Detected ''wind_increase'' (ts_windSpeed next - ts_windSpeed current)
                 (ts_timestamp next)
                 [Lit ''Wind increased by '',
                  Num (of_int (Math_round (ts_windSpeed next - ts_windSpeed current))),
                  Lit '' mph in '', Num (of_int (Math_round (timeDiff * 60))), Lit '' minutes'']]
         else [])
        @ (if ts_humidity current - ts_humidity next > 20
           then [Detected ''humidity_drop'' (ts_humidity current - ts_humidity next)
                   (ts_timestamp next)
                   [Lit ''Humidity dropped '',
                    Num (of_int (Math_round (ts_humidity current - ts_humidity next))),
                    Lit ''% in '', Num (of_int (Math_round (timeDiff * 60))), Lit '' minutes'']]
           else [])
        @ (if ts_temperature next - ts_temperature current > 20
           then [Detected ''temperature_spike'' (ts_temperature next - ts_temperature current)
                   (ts_timestamp next)
                   [Lit ''Temperature increased '',
                    Num (of_int (Math_round (ts_temperature next - ts_temperature current))),
                    Lit (CHR 0xB0 # ''F in ''), Num (of_int (Math_round (timeDiff * 60))), Lit '' minutes'']]
           else [])
      else [])"

text \<open>The loop over \<^verbatim>\<open>i = 0 .. sorted.length - 2\<close>.\<close>

fun scan_pairs :: "series_obs list \<Rightarrow> change_entry list" where
  "scan_pairs (current # next # rest) = pair_changes current next @ scan_pairs (next # rest)"
| "scan_pairs _ = []"

text \<open>
  \<^verbatim>\<open>detectExtremeChanges\<close>: the copy of the series is sorted by time (the sort of the
  language is stable, as \<open>sort_key\<close> is), then scanned.
\<close>

definition detectExtremeChanges :: "series_obs list \<Rightarrow> change_entry list" where
  "detectExtremeChanges timeSeries =
     (if length timeSeries < 2 then []
      else scan_pairs (sort_key ts_timestamp timeSeries))"

section \<open>The schema transformer (transformer.js, wildfire-schema.js)\<close>

text \<open>The adapted observation \<^verbatim>\<open>rawsData\<close>, every reading nullable.\<close>

record observation =
  temperature :: "real option"
  relativeHumidity :: "real option"
  windSpeed :: "real option"
  windGust :: "real option"
  windDirection :: "real option"
  precipAccum :: "real option"
  fuelMoisture :: "real option"

text \<open>An alert of the weather service, as \<^verbatim>\<open>transformRedFlagWarnings\<close> reads it.\<close>

record alert =
  event :: string
  onset :: "string option"
  expires :: "string option"
  headline :: "string option"
  alert_description :: "string option"

text \<open>
  A time string of a warning: the provider's own string, or \<^verbatim>\<open>toISOString()\<close> of a date
  given in milliseconds.
\<close>

datatype time_string = Provided string | ISO int

datatype warning_level = Watch | RedFlag | ExtremeLevel

record warning =
  start_time :: time_string
  end_time :: time_string
  level :: warning_level
  description :: "text_parts option"

text \<open>\<^verbatim>\<open>a || b\<close> on nullable strings: \<^verbatim>\<open>null\<close> and the empty string are falsy.\<close>

definition str_or :: "string option \<Rightarrow> string option \<Rightarrow> string option" where
  "str_or a b = (case a of None \<Rightarrow> b | Some s \<Rightarrow> if s = [] then b else Some s)"

datatype transform_error = MissingRequiredField "string list" | SchemaValidationError

definition validateRequiredFields :: "observation \<Rightarrow> transform_error + unit" where
  "validateRequiredFields rawsData =
     (let required = [(''temperature'', temperature rawsData),
                      (''relativeHumidity'', relativeHumidity rawsData),
                      (''windSpeed'', windSpeed rawsData)];
          missing = filter (\<lambda>(field, v). v = None) required
      in if length missing > 0 then Inl (MissingRequiredField (map fst missing)) else Inr ())"

text \<open>
  The private functions below read \<^verbatim>\<open>rawsData\<close> after the validation. A nullable number
  in arithmetic or in a comparison is converted as the language does: \<^verbatim>\<open>null\<close> is 0.
\<close>

definition to_num :: "real option \<Rightarrow> real" where
  "to_num x = (case x of None \<Rightarrow> 0 | Some v \<Rightarrow> v)"

text \<open>The body of the loop over \<^verbatim>\<open>nwsAlerts\<close>: what one alert pushes.\<close>

definition alert_warnings :: "int \<Rightarrow> alert \<Rightarrow> warning list" where
  "alert_warnings now a =
     (if event a = ''Red Flag Warning'' \<or> event a = ''Fire Weather Watch'' then
        [\<lparr>start_time = (case str_or (onset a) None of Some s \<Rightarrow> Provided s | None \<Rightarrow> ISO now),
          end_time = (case str_or (expires a) None of
                        Some s \<Rightarrow> Provided s
                      | None \<Rightarrow> ISO (now + 6 * 3600 * 1000)),
          level = (if event a = ''Red Flag Warning'' then RedFlag else Watch),
          description = map_option (\<lambda>s. [Lit s]) (str_or (headline a) (alert_description a))\<rparr>]
      else [])"

definition transformRedFlagWarnings :: "int \<Rightarrow> observation \<Rightarrow> alert list \<Rightarrow> warning list" where
  "transformRedFlagWarnings now rawsData nwsAlerts =
     (let warnings = concat (map (alert_warnings now) nwsAlerts) in
      if length warnings = 0 then
        (if isRedFlagConditions (relativeHumidity rawsData)
              (Some (max (to_num (windSpeed rawsData)) (num_or (windGust rawsData) 0))) False
         then
           [\<lparr>start_time = ISO now, end_time = ISO (now + 6 * 3600 * 1000), level = RedFlag,
             description = Some
               ([Lit ''Critical fire weather: Low humidity ('',
                 Num (round_js (to_num (relativeHumidity rawsData)) 0),
                 Lit ''%) and high winds ('',
                 Num (round_js (to_num (windSpeed rawsData)) 0), Lit '' mph'']
                @ (if truthy_num (windGust rawsData)
                   then [Lit '', gusts to '', Num (round_js (to_num (windGust rawsData)) 0),
                         Lit '' mph'']
                   else [])
                @ [Lit '')''])\<rparr>]
         else if to_num (relativeHumidity rawsData) < 25 \<and> to_num (windSpeed rawsData) > 15
         then
           [\<lparr>start_time = ISO now, end_time = ISO (now + 6 * 3600 * 1000), level = Watch,
             description = Some
               [Lit ''Elevated fire weather: Humidity '',
                Num (round_js (to_num (relativeHumidity rawsData)) 0),
                Lit ''%, winds '', Num (round_js (to_num (windSpeed rawsData)) 0),
                Lit '' mph'']\<rparr>]
         else [])
      else warnings)"

definition transformExtremeChanges :: "observation \<Rightarrow> series_obs list \<Rightarrow> change_entry list" where
  "transformExtremeChanges rawsData historicalData =
     (if length historicalData > 0 then detectExtremeChanges historicalData else [])
     @ (if truthy_num (windGust rawsData) \<and> to_num (windGust rawsData) > 40
        then [Change ''wind'' ''gusts up to''
                [Num (round_js (to_num (windGust rawsData)) 0), Lit '' mph''] ''current'']
        else [])
     @ (if to_num (relativeHumidity rawsData) < 10
        then [Change ''humidity'' ''critically low at''
                [Num (round_js (to_num (relativeHumidity rawsData)) 0), Lit ''%''] ''current'']
        else [])
     @ (case fuelMoisture rawsData of
          None \<Rightarrow> []
        | Some fm \<Rightarrow>
            if fm < 8
            then [Change ''fuel_moisture'' ''very dry fuels at''
                    [Num (round_js fm 1), Lit ''%''] ''current'']
            else [])"

text \<open>
  The \<^verbatim>\<open>weather_risks\<close> object of the document, its nested objects flattened. The
  document's other members (\<^verbatim>\<open>location\<close>, \<^verbatim>\<open>as_of\<close>, \<^verbatim>\<open>data_sources\<close>,
  \<^verbatim>\<open>notes\<close>) are strings the transformer always builds, optional in the schema; they
  are left out.
\<close>

record weather_risks =
  temperature_value :: real
  temperature_units :: string
  humidity_percent :: real
  wind_speed :: real
  wind_gusts :: real
  wind_direction :: "string option"
  rain_percent :: real
  rain_time_window :: string
  rain_confidence :: string
  red_flag_warnings :: "warning list"
  extreme_changes :: "change_entry list"

definition build_weather_risks ::
  "int \<Rightarrow> observation \<Rightarrow> alert list \<Rightarrow> series_obs list \<Rightarrow> weather_risks" where
  "build_weather_risks now rawsData nwsAlerts historicalData =
     \<lparr>temperature_value = round_js (to_num (temperature rawsData)) 0,
      temperature_units = ''F'',
      humidity_percent = round_js (to_num (relativeHumidity rawsData)) 0,
      wind_speed = round_js (to_num (windSpeed rawsData)) 0,
      wind_gusts = (case windGust rawsData of
                      Some g \<Rightarrow> round_js g 0
                    | None \<Rightarrow> estimateWindGust (windSpeed rawsData)),
      wind_direction = (case windDirection rawsData of
                          Some d \<Rightarrow> degreesToCardinal (Some d)
                        | None \<Rightarrow> Some ''Unknown''),
      rain_percent = estimateProbabilityOfRain (to_num (relativeHumidity rawsData))
                       (num_or (precipAccum rawsData) 0) (temperature rawsData),
      rain_time_window = ''next 24h'',
      rain_confidence = (if to_num (precipAccum rawsData) > 0 then ''medium'' else ''low''),
      red_flag_warnings = transformRedFlagWarnings now rawsData nwsAlerts,
      extreme_changes = transformExtremeChanges rawsData historicalData\<rparr>"

text \<open>
  What \<^verbatim>\<open>wildfireSchema.parse\<close> requires of the object: the numeric bounds of the
  schema, a string where the schema says \<^verbatim>\<open>z.string()\<close>, a member of the enumeration
  where it says \<^verbatim>\<open>z.enum\<close>. An object of the \<^verbatim>\<open>extreme_changes\<close> array must have the
  four string members \<^verbatim>\<open>parameter\<close>, \<^verbatim>\<open>change\<close>, \<^verbatim>\<open>magnitude\<close> and
  \<^verbatim>\<open>time_frame\<close>.
\<close>

definition change_entry_valid :: "change_entry \<Rightarrow> bool" where
  "change_entry_valid ch = (case ch of Change _ _ _ _ \<Rightarrow> True | Detected _ _ _ _ \<Rightarrow> False)"

definition warning_valid :: "warning \<Rightarrow> bool" where
  "warning_valid w = (description w \<noteq> None)"

definition wildfireSchema_parse :: "weather_risks \<Rightarrow> transform_error + weather_risks" where
  "wildfireSchema_parse wr =
     (if temperature_units wr \<in> set [''F'', ''C'']
         \<and> 0 \<le> humidity_percent wr \<and> humidity_percent wr \<le> 100
         \<and> 0 \<le> wind_speed wr
         \<and> 0 \<le> wind_gusts wr
         \<and> wind_direction wr \<noteq> None
         \<and> 0 \<le> rain_percent wr \<and> rain_percent wr \<le> 100
         \<and> rain_confidence wr \<in> set [''high'', ''medium'', ''low'']
         \<and> list_all warning_valid (red_flag_warnings wr)
         \<and> list_all change_entry_valid (extreme_changes wr)
      then Inr wr
      else Inl SchemaValidationError)"

text \<open>
  \<^verbatim>\<open>transformToWildfireSchema\<close>: the validation throws before the \<^verbatim>\<open>try\<close> block; the
  block rethrows what the schema throws. \<open>now\<close> is the time of the call.
\<close>

definition transformToWildfireSchema ::
  "int \<Rightarrow> observation \<Rightarrow> alert list \<Rightarrow> series_obs list \<Rightarrow> transform_error + weather_risks" where
  "transformToWildfireSchema now rawsData nwsAlerts historicalData =
     (case validateRequiredFields rawsData of
        Inl err \<Rightarrow> Inl err
      | Inr _ \<Rightarrow> wildfireSchema_parse (build_weather_risks now rawsData nwsAlerts historicalData))"

section \<open>Calculators: evaluation and classification\<close>

text \<open>
  C10: \<^verbatim>\<open>calculateHainesIndex\<close> does not depend on its elevation argument: for every
  temperature, every humidity and every two elevations the results are equal. The result
  is decided by the temperature band and the humidity band alone.
\<close>

theorem calculateHainesIndex_ignores_elevation:
  "calculateHainesIndex t h e1 = calculateHainesIndex t h e2"
  by (simp add: calculateHainesIndex_def)

text \<open>
  C6: \<^verbatim>\<open>degreesToCardinal(0)\<close> and \<^verbatim>\<open>degreesToCardinal(360)\<close> should both be "N". The
  code adds 11.25 and then rounds to the nearest integer, so that 0 gives
  \<^verbatim>\<open>Math.round(0.5) = 1\<close>, the index of "NNE"; 360 is normalised to 0 and gives the same.
  The absent direction gives "Unknown".
\<close>

theorem degreesToCardinal_zero_is_NNE:
  "degreesToCardinal (Some 0) = Some ''NNE''
   \<and> degreesToCardinal (Some 360) = Some ''NNE''
   \<and> degreesToCardinal None = Some ''Unknown''"
  by (simp add: degreesToCardinal_def normalizeDegrees_def js_rem_def Math_round_def
      js_rem_int_def js_index_def directions_def)

text \<open>The label of 45 degrees, "NE" in the unit tests, is "ENE" for the same reason.\<close>

lemma degreesToCardinal_45: "degreesToCardinal (Some 45) = Some ''ENE''"
  by (simp add: degreesToCardinal_def normalizeDegrees_def js_rem_def Math_round_def
      js_rem_int_def js_index_def directions_def)

subsection \<open>Fosberg index\<close>

lemma exp_minus_upper: "exp (- x) \<le> 1 / (1 + x)" if "0 \<le> x" for x :: real
proof -
  have "1 + x \<le> exp x" by (rule exp_ge_add_one_self)
  moreover have "exp (- x) = 1 / exp x" by (simp add: exp_minus inverse_eq_divide)
  ultimately show ?thesis using that by (simp add: frac_le)
qed

lemma emc_100_100_bounds:
  "- 0.6914 \<le> calculateEquilibriumMoistureContent 100 100 \<and>
   calculateEquilibriumMoistureContent 100 100 \<le> - 0.5222"
proof -
  have e1: "exp (- 0.115 :: real) \<le> 1 / (1 + 0.115)" using exp_minus_upper[of "0.115"] by simp
  have e2: "1 + (- 0.115 :: real) \<le> exp (- 0.115)" by (rule exp_ge_add_one_self)
  have e3: "exp (0.1 :: real) \<le> 1 / (1 - 0.1)"
  proof -
    have "1 + (- 0.1 :: real) \<le> exp (- 0.1)" by (rule exp_ge_add_one_self)
    moreover have "exp (- 0.1 :: real) = 1 / exp 0.1" by (simp add: exp_minus inverse_eq_divide)
    ultimately have "0.9 \<le> 1 / exp (0.1::real)" by simp
    then have "0.9 * exp (0.1::real) \<le> 1" by (simp add: pos_le_divide_eq)
    then show ?thesis by simp
  qed
  have e4: "0 < exp (0.1 :: real)" by simp
  have eq: "calculateEquilibriumMoistureContent 100 100 =
      0.942 + 0.000499 * exp (0.1 :: real) + 0.18 * (21.1 - 100) * (1 - exp (- 0.115 :: real))"
    by (simp add: calculateEquilibriumMoistureContent_def)
  define a where "a = exp (- 0.115 :: real)"
  define b where "b = exp (0.1 :: real)"
  have "a \<le> 200 / 223" "0.885 \<le> a" "b \<le> 10 / 9" "0 < b"
    using e1 e2 e3 e4 by (simp_all add: a_def b_def)
  then have "- 0.6914 \<le> 0.942 + 0.000499 * b + 0.18 * (21.1 - 100) * (1 - a) \<and>
     0.942 + 0.000499 * b + 0.18 * (21.1 - 100) * (1 - a) \<le> - 0.5222"
    by (simp add: algebra_simps)
  then show ?thesis unfolding eq a_def b_def .
qed

lemma sqrt_401_bounds: "20 \<le> sqrt (401::real) \<and> sqrt (401::real) \<le> 20.03"
proof
  show "20 \<le> sqrt (401::real)" by (rule real_le_rsqrt) simp
  show "sqrt (401::real) \<le> 20.03" by (rule real_le_lsqrt) (simp_all add: power2_eq_square)
qed

text \<open>
  C9: \<^verbatim>\<open>calculateFosbergFFWI\<close> should return a non-negative number for non-null inputs.
  At 100 degrees, 100 percent humidity and 20 mph wind the equilibrium moisture content
  is negative, the damping coefficient is negative, and the function returns -2: nothing
  floors the result at zero.
\<close>

theorem calculateFosbergFFWI_negative:
  "calculateFosbergFFWI (Some 100) (Some 100) (Some 20) = Some (- 2)"
proof -
  define emc where "emc = calculateEquilibriumMoistureContent 100 100"
  have b: "- 0.6914 \<le> emc" "emc \<le> - 0.5222" using emc_100_100_bounds by (simp_all add: emc_def)
  define eta where "eta = fosberg_eta emc 100"
  have eta_eq: "eta = 0.03229 + 0.223273 * emc" using b by (simp add: eta_def fosberg_eta_def)
  have eb: "- 0.1221 \<le> eta" "eta \<le> - 0.0843" using b unfolding eta_eq by simp_all
  define s where "s = sqrt (401::real)"
  have sb: "20 \<le> s" "s \<le> 20.03" using sqrt_401_bounds by (simp_all add: s_def)
  have up: "eta * s \<le> - 0.0843 * 20"
  proof -
    have "eta * s \<le> - 0.0843 * s" using mult_right_mono[OF eb(2), of s] sb by simp
    also have "\<dots> \<le> - 0.0843 * 20" using sb by simp
    finally show ?thesis .
  qed
  have lo: "- 0.1221 * 20.03 \<le> eta * s"
  proof -
    have "- 0.1221 * 20.03 \<le> - 0.1221 * s" using sb by simp
    also have "\<dots> \<le> eta * s" using mult_right_mono[OF eb(1), of s] sb by simp
    finally show ?thesis .
  qed
  have "Math_round (eta * s) = - 2"
    unfolding Math_round_def using up lo by (simp add: floor_eq_iff)
  then show ?thesis
    by (simp add: calculateFosbergFFWI_def emc_def eta_def s_def)
qed

text \<open>The null cases of the same function.\<close>

lemma calculateFosbergFFWI_None_iff:
  "(calculateFosbergFFWI t h w = None) = (t = None \<or> h = None \<or> w = None)"
  by (cases t; cases h; cases w) (simp_all add: calculateFosbergFFWI_def Let_def)

subsection \<open>Fire danger class\<close>

lemma Math_round_less: "x < of_int n - 1 / 2 \<Longrightarrow> Math_round x < n"
  unfolding Math_round_def by (simp add: floor_less_iff)

lemma ten_powr_bound: "10 powr (- 0.355 :: real) < 1 / 2"
proof -
  have "(2::real) = (2 ^ 3) powr (1 / 3)"
    by (simp add: powr_powr flip: powr_realpow)
  also have "\<dots> < 10 powr (1 / 3)"
    by (rule powr_less_mono2) simp_all
  finally have two: "2 < 10 powr (1 / 3 :: real)" .
  have "10 powr (- 0.355 :: real) \<le> 10 powr (- (1 / 3))"
    by (rule powr_mono) simp_all
  also have "\<dots> = 1 / (10 powr (1 / 3))"
    by (simp add: powr_minus inverse_eq_divide)
  also have "\<dots> < 1 / 2"
    using two by (simp add: field_simps)
  finally show ?thesis .
qed

lemma chandler_50_18_25:
  "\<exists>v. calculateChandlerBurningIndex (Some 50) (Some 18) (Some 25) = Some v \<and> v < 90"
proof -
  define p where "p = 10 powr (- 0.355 :: real)"
  have p: "0 < p" "p < 1 / 2" using ten_powr_bound by (simp_all add: p_def)
  have eq: "calculateChandlerBurningIndex (Some 50) (Some 18) (Some 25)
     = Some (max 0 (Math_round (85.178 * (124 * p) / 60)))"
    by (simp add: calculateChandlerBurningIndex_def p_def)
  have "85.178 * (124 * p) / 60 < of_int 90 - 1 / 2" using p by simp
  then have "Math_round (85.178 * (124 * p) / 60) < 90" by (rule Math_round_less)
  then show ?thesis unfolding eq by simp
qed

lemma chandler_is_number:
  "\<exists>v. calculateChandlerBurningIndex (Some t) (Some h) fm = Some v"
  by (simp add: calculateChandlerBurningIndex_def Let_def)

text \<open>
  C8, as stated, fails twice. At 50 degrees, 18 percent humidity, 22 mph wind and fuel
  moisture 25 none of the three stated overrides holds (humidity is not below 10, fuel
  moisture is not below 5, the strict red-flag test is false), the Chandler value is
  below 90, and yet the class is Extreme: the function applies the relaxed red-flag
  test. At 50 degrees, 50 percent humidity, no wind and fuel moisture 0, fuel moisture is
  present and below 5, and the class is Very High: 0 fails the truthiness test.
\<close>

theorem calculateFireDangerClass_strict_counterexample:
  "\<not> (18::real) < 10 \<and> \<not> (25::real) < 5
   \<and> \<not> isRedFlagConditions (Some 18) (Some 22) True
   \<and> (\<exists>v. calculateChandlerBurningIndex (Some 50) (Some 18) (Some 25) = Some v
          \<and> cbi_band v \<noteq> Extreme
          \<and> calculateFireDangerClass 50 18 22 (Some 25) \<noteq> cbi_band v)
   \<and> (0::real) < 5 \<and> calculateFireDangerClass 50 50 0 (Some 0) = VeryHigh"
proof -
  obtain v where v: "calculateChandlerBurningIndex (Some 50) (Some 18) (Some 25) = Some v" "v < 90"
    using chandler_50_18_25 by blast
  have "calculateFireDangerClass 50 18 22 (Some 25) = Extreme"
    by (simp add: calculateFireDangerClass_def isRedFlagConditions_def)
  moreover have "cbi_band v \<noteq> Extreme" using v(2) by (simp add: cbi_band_def)
  moreover have "calculateFireDangerClass 50 50 0 (Some 0) = VeryHigh"
    by (simp add: calculateFireDangerClass_def isRedFlagConditions_def
        calculateChandlerBurningIndex_def Math_round_def cbi_band_def)
  ultimately show ?thesis using v(1) by (simp add: isRedFlagConditions_def)
qed

text \<open>
  C8, amended: the class is Extreme whenever humidity is below 10 or the relaxed red-flag
  test holds (humidity below 15 and wind above 25, or humidity below 20 and wind above
  20); and for every input whose fuel moisture is not the number 0, the class is Extreme
  if humidity is below 10, or fuel moisture is present and below 5, or the relaxed
  red-flag test holds, and otherwise it is the band of the Chandler value (Extreme from
  90, Very High from 75, High from 50, Moderate from 25, Low below).
\<close>

theorem calculateFireDangerClass_relaxed:
  "(h < 10 \<or> (h < 15 \<and> w > 25) \<or> (h < 20 \<and> w > 20)
      \<longrightarrow> calculateFireDangerClass t h w fm = Extreme)
   \<and> (fm \<noteq> Some 0 \<longrightarrow>
        (\<exists>v. calculateChandlerBurningIndex (Some t) (Some h) fm = Some v \<and>
           calculateFireDangerClass t h w fm =
             (if h < 10 \<or> (\<exists>f. fm = Some f \<and> f < 5) \<or> (h < 15 \<and> w > 25) \<or> (h < 20 \<and> w > 20)
              then Extreme else cbi_band v)))"
proof -
  obtain v where v: "calculateChandlerBurningIndex (Some t) (Some h) fm = Some v"
    using chandler_is_number by blast
  show ?thesis
    unfolding calculateFireDangerClass_def v isRedFlagConditions_def
    by (cases fm) (auto simp: Let_def)
qed

theorem calculateFireDangerClass_relaxed_witness:
  "((18::real) < 10 \<or> ((18::real) < 15 \<and> (22::real) > 25) \<or> ((18::real) < 20 \<and> (22::real) > 20))
   \<and> calculateFireDangerClass 50 18 22 (Some 25) = Extreme
   \<and> Some (3::real) \<noteq> Some 0
   \<and> calculateFireDangerClass 85 20 15 (Some 3) = Extreme
   \<and> Some (12::real) \<noteq> Some 0
   \<and> (\<exists>v. calculateChandlerBurningIndex (Some 65) (Some 60) (Some 12) = Some v
          \<and> calculateFireDangerClass 65 60 5 (Some 12) = cbi_band v)"
  using calculateFireDangerClass_relaxed[where h=18 and w=22 and t=50 and fm="Some 25"]
    calculateFireDangerClass_relaxed[where fm="Some 3" and t=85 and h=20 and w=15]
    calculateFireDangerClass_relaxed[where fm="Some 12" and t=65 and h=60 and w=5]
  by simp

section \<open>The cache: expiry and eviction\<close>

text \<open>
  What \<^verbatim>\<open>get\<close> returns, for every cache and time: the entry is visible up to and
  including its expiry time.
\<close>

lemma Cache_get_visible:
  "fst (Cache_get now key c) =
     (case map_of (store c) key of
        None \<Rightarrow> None
      | Some e \<Rightarrow> if now \<le> expiresAt e then Some (entry_value e) else None)"
  by (simp add: Cache_get_def split: option.splits)

text \<open>
  C4: an entry should be visible only while the current time is strictly less than its
  expiry time. \<^verbatim>\<open>get\<close> and \<^verbatim>\<open>has\<close> test \<^verbatim>\<open>Date.now() > entry.expiresAt\<close>, so at the
  expiry time itself the entry is still returned; at that same time \<^verbatim>\<open>getStats\<close>, which
  tests \<^verbatim>\<open>now < e.expiresAt\<close>, counts it as expired and not as active.
\<close>

theorem Cache_get_at_expiry_time:
  "fst (Cache_get 1000 ''k''
      \<lparr>store = [(''k'', \<lparr>entry_value = ''obs'', createdAt = 0, lastAccessed = 0,
                          expiresAt = 1000, hits = 0\<rparr>)],
       maxSize = 1000, defaultTTL = 300000\<rparr>) = Some ''obs''
   \<and> fst (Cache_has 1000 ''k''
      \<lparr>store = [(''k'', \<lparr>entry_value = ''obs'', createdAt = 0, lastAccessed = 0,
                          expiresAt = 1000, hits = 0\<rparr>)],
       maxSize = 1000, defaultTTL = 300000\<rparr>) = True
   \<and> activeEntries (getStats 1000
      \<lparr>store = [(''k'', \<lparr>entry_value = ''obs'', createdAt = 0, lastAccessed = 0,
                          expiresAt = 1000, hits = 0\<rparr>)],
       maxSize = 1000, defaultTTL = 300000\<rparr>) = 0
   \<and> expiredEntries (getStats 1000
      \<lparr>store = [(''k'', \<lparr>entry_value = ''obs'', createdAt = 0, lastAccessed = 0,
                          expiresAt = 1000, hits = 0\<rparr>)],
       maxSize = 1000, defaultTTL = 300000\<rparr>) = 1"
  by (simp add: Cache_get_def Cache_has_def getStats_def)

text \<open>
  C5: a \<^verbatim>\<open>set\<close> of a new key on a full cache should evict the least recently used entry
  first. When that entry is stored under the empty string, \<^verbatim>\<open>if (oldestKey)\<close> is false,
  nothing is evicted, and the store grows to two entries with a maximum of one.
\<close>

theorem Cache_set_empty_key_not_evicted:
  "map fst (store (Cache_set 20 ''current:KSFO'' ''new'' (Some 300000)
      \<lparr>store = [([], \<lparr>entry_value = ''old'', createdAt = 10, lastAccessed = 10,
                        expiresAt = 5000, hits = 0\<rparr>)],
       maxSize = 1, defaultTTL = 300000\<rparr>)) = [[], ''current:KSFO'']
   \<and> int (length (store (Cache_set 20 ''current:KSFO'' ''new'' (Some 300000)
      \<lparr>store = [([], \<lparr>entry_value = ''old'', createdAt = 10, lastAccessed = 10,
                        expiresAt = 5000, hits = 0\<rparr>)],
       maxSize = 1, defaultTTL = 300000\<rparr>))) > 1"
  by (simp add: Cache_set_def evictLRU_def)

subsection \<open>Eviction when no stored key is empty\<close>

lemma lru_scan_acc:
  "lru_scan xs (Some k0) (Some t0) = Some k \<Longrightarrow>
     (k = k0 \<and> (\<forall>p \<in> set xs. t0 \<le> lastAccessed (snd p)))
   \<or> (\<exists>e. (k, e) \<in> set xs \<and> lastAccessed e < t0 \<and> (\<forall>p \<in> set xs. lastAccessed e \<le> lastAccessed (snd p)))"
proof (induction xs arbitrary: k0 t0)
  case Nil
  then show ?case by simp
next
  case (Cons p xs)
  obtain k1 e1 where p: "p = (k1, e1)" by (cases p)
  show ?case
  proof (cases "lastAccessed e1 < t0")
    case True
    with Cons.prems have "lru_scan xs (Some k1) (Some (lastAccessed e1)) = Some k" by (simp add: p)
    from Cons.IH[OF this] show ?thesis
    proof
      assume a: "k = k1 \<and> (\<forall>p\<in>set xs. lastAccessed e1 \<le> lastAccessed (snd p))"
      have "(k, e1) \<in> set (p # xs) \<and> lastAccessed e1 < t0
          \<and> (\<forall>q\<in>set (p # xs). lastAccessed e1 \<le> lastAccessed (snd q))"
        using a True by (simp add: p)
      then show ?thesis by blast
    next
      assume "\<exists>e. (k, e) \<in> set xs \<and> lastAccessed e < lastAccessed e1
           \<and> (\<forall>p\<in>set xs. lastAccessed e \<le> lastAccessed (snd p))"
      then obtain e where e: "(k, e) \<in> set xs" "lastAccessed e < lastAccessed e1"
        "\<forall>p\<in>set xs. lastAccessed e \<le> lastAccessed (snd p)" by blast
      have "(k, e) \<in> set (p # xs) \<and> lastAccessed e < t0
          \<and> (\<forall>q\<in>set (p # xs). lastAccessed e \<le> lastAccessed (snd q))"
        using e True by (simp add: p)
      then show ?thesis by blast
    qed
  next
    case False
    with Cons.prems have "lru_scan xs (Some k0) (Some t0) = Some k" by (simp add: p)
    from Cons.IH[OF this] show ?thesis
    proof
      assume a: "k = k0 \<and> (\<forall>p\<in>set xs. t0 \<le> lastAccessed (snd p))"
      then have "k = k0 \<and> (\<forall>q\<in>set (p # xs). t0 \<le> lastAccessed (snd q))"
        using False by (simp add: p)
      then show ?thesis by blast
    next
      assume "\<exists>e. (k, e) \<in> set xs \<and> lastAccessed e < t0
           \<and> (\<forall>p\<in>set xs. lastAccessed e \<le> lastAccessed (snd p))"
      then obtain e where e: "(k, e) \<in> set xs" "lastAccessed e < t0"
        "\<forall>p\<in>set xs. lastAccessed e \<le> lastAccessed (snd p)" by blast
      have "(k, e) \<in> set (p # xs) \<and> lastAccessed e < t0
          \<and> (\<forall>q\<in>set (p # xs). lastAccessed e \<le> lastAccessed (snd q))"
        using e False by (simp add: p)
      then show ?thesis by blast
    qed
  qed
qed

lemma lru_scan_some: "\<exists>k. lru_scan xs (Some k0) (Some t0) = Some k"
proof (induction xs arbitrary: k0 t0)
  case Nil
  then show ?case by simp
next
  case (Cons p xs)
  obtain k1 e1 where p: "p = (k1, e1)" by (cases p)
  show ?case using Cons.IH[of k1 "lastAccessed e1"] Cons.IH[of k0 t0] by (simp add: p)
qed

lemma lru_scan_least:
  assumes "xs \<noteq> []"
  shows "\<exists>k e. lru_scan xs None None = Some k \<and> (k, e) \<in> set xs
           \<and> (\<forall>p \<in> set xs. lastAccessed e \<le> lastAccessed (snd p))"
proof -
  obtain k1 e1 rest where xs: "xs = (k1, e1) # rest" using assms by (cases xs) auto
  have eq: "lru_scan xs None None = lru_scan rest (Some k1) (Some (lastAccessed e1))"
    by (simp add: xs)
  obtain k where k: "lru_scan rest (Some k1) (Some (lastAccessed e1)) = Some k"
    using lru_scan_some by blast
  from lru_scan_acc[OF k] show ?thesis
  proof
    assume a: "k = k1 \<and> (\<forall>p \<in> set rest. lastAccessed e1 \<le> lastAccessed (snd p))"
    have "lru_scan xs None None = Some k1 \<and> (k1, e1) \<in> set xs
           \<and> (\<forall>p \<in> set xs. lastAccessed e1 \<le> lastAccessed (snd p))"
      using a k eq by (simp add: xs)
    then show ?thesis by blast
  next
    assume "\<exists>e. (k, e) \<in> set rest \<and> lastAccessed e < lastAccessed e1
              \<and> (\<forall>p \<in> set rest. lastAccessed e \<le> lastAccessed (snd p))"
    then obtain e where e: "(k, e) \<in> set rest" "lastAccessed e < lastAccessed e1"
      "\<forall>p \<in> set rest. lastAccessed e \<le> lastAccessed (snd p)" by blast
    have "lru_scan xs None None = Some k \<and> (k, e) \<in> set xs
           \<and> (\<forall>p \<in> set xs. lastAccessed e \<le> lastAccessed (snd p))"
      using e k eq by (simp add: xs)
    then show ?thesis by blast
  qed
qed

lemma length_delete_distinct:
  "distinct (map fst al) \<Longrightarrow> k \<in> fst ` set al \<Longrightarrow> Suc (length (AList.delete k al)) = length al"
proof (induction al)
  case Nil
  then show ?case by simp
next
  case (Cons p al)
  show ?case
  proof (cases "fst p = k")
    case True
    with Cons.prems(1) have "k \<notin> fst ` set al" by auto
    then have "AList.delete k al = al" by simp
    with True show ?thesis by (cases p) simp
  next
    case False
    with Cons.prems have "distinct (map fst al)" "k \<in> fst ` set al" by auto
    from Cons.IH[OF this] False show ?thesis by (cases p) auto
  qed
qed

lemma update_new_key: "key \<notin> fst ` set al \<Longrightarrow> AList.update key x al = al @ [(key, x)]"
  by (induction al) auto

text \<open>
  On a store that is not empty, has reached the maximum, and holds no entry under the
  empty string, a \<^verbatim>\<open>set\<close> of a new key removes an entry whose last access is the least,
  appends the new key, and leaves the number of entries as it was.
\<close>

lemma Cache_set_at_capacity:
  assumes "store c \<noteq> []" and "[] \<notin> fst ` set (store c)"
    and "distinct (map fst (store c))"
    and "int (length (store c)) \<ge> maxSize c" and "key \<notin> fst ` set (store c)"
  shows "\<exists>k e. (k, e) \<in> set (store c)
           \<and> (\<forall>p \<in> set (store c). lastAccessed e \<le> lastAccessed (snd p))
           \<and> map fst (store (Cache_set now key v ttl c)) = map fst (AList.delete k (store c)) @ [key]
           \<and> length (store (Cache_set now key v ttl c)) = length (store c)"
proof -
  obtain k e where ke: "lru_scan (store c) None None = Some k" "(k, e) \<in> set (store c)"
    "\<forall>p \<in> set (store c). lastAccessed e \<le> lastAccessed (snd p)"
    using lru_scan_least[OF assms(1)] by blast
  have kin: "k \<in> fst ` set (store c)" using ke(2) by force
  have kne: "k \<noteq> []" using kin assms(2) by metis
  have ev: "store (evictLRU c) = AList.delete k (store c)"
    by (simp add: evictLRU_def ke(1) kne)
  have notin: "key \<notin> fst ` set (AList.delete k (store c))"
    using assms(5) by (auto simp: AList.delete_eq)
  have len: "Suc (length (AList.delete k (store c))) = length (store c)"
    using length_delete_distinct[OF assms(3) kin] .
  have st: "store (Cache_set now key v ttl c) = AList.delete k (store c) @
      [(key, \<lparr>entry_value = v, createdAt = now, lastAccessed = now,
               expiresAt = now + (case ttl of None \<Rightarrow> defaultTTL c
                                   | Some t \<Rightarrow> if t = 0 then defaultTTL c else t),
               hits = 0\<rparr>)]"
    using assms(4,5) by (simp add: Cache_set_def Let_def ev update_new_key[OF notin])
  have "(k, e) \<in> set (store c)
           \<and> (\<forall>p \<in> set (store c). lastAccessed e \<le> lastAccessed (snd p))
           \<and> map fst (store (Cache_set now key v ttl c)) = map fst (AList.delete k (store c)) @ [key]
           \<and> length (store (Cache_set now key v ttl c)) = length (store c)"
    using ke(2,3) len unfolding st by simp
  then show ?thesis by blast
qed

text \<open>A \<^verbatim>\<open>set\<close> of a stored key replaces the entry in place: the keys and their order stay.\<close>

lemma Cache_set_existing_key:
  assumes "key \<in> fst ` set (store c)"
  shows "map fst (store (Cache_set now key v ttl c)) = map fst (store c)"
proof -
  have "\<And>al x. key \<in> fst ` set al \<Longrightarrow> map fst (AList.update key x al) = map fst al"
    subgoal for al x by (induction al) auto
    done
  then show ?thesis using assms by (simp add: Cache_set_def Let_def)
qed

section \<open>The coordinator: cache first, then failover in order\<close>

lemma tryClients_first_success:
  "list_all (\<lambda>q. isl (fetchCurrent (snd q) sid)) failed \<Longrightarrow> fetchCurrent cl sid = Inr d \<Longrightarrow>
   tryClients (failed @ (n, cl) # rest) sid le asked = (Inr (n, d), asked @ map fst failed @ [n])"
proof (induction failed arbitrary: le asked)
  case Nil
  then show ?case by simp
next
  case (Cons q failed)
  obtain m cm where q: "q = (m, cm)" by (cases q)
  from Cons.prems(1) obtain e where e: "fetchCurrent cm sid = Inl e"
    by (cases "fetchCurrent cm sid") (auto simp: q)
  from Cons.prems have "list_all (\<lambda>q. isl (fetchCurrent (snd q) sid)) failed" by simp
  from Cons.IH[OF this Cons.prems(2)] show ?case by (simp add: q e)
qed

lemma tryClients_all_fail:
  "list_all (\<lambda>q. isl (fetchCurrent (snd q) sid)) cs \<Longrightarrow> cs \<noteq> [] \<Longrightarrow>
   fetchCurrent (snd (last cs)) sid = Inl e \<Longrightarrow>
   tryClients cs sid le asked = (Inl e, asked @ map fst cs)"
proof (induction cs arbitrary: le asked)
  case Nil
  then show ?case by simp
next
  case (Cons q cs)
  obtain m cm where q: "q = (m, cm)" by (cases q)
  from Cons.prems(1) obtain e' where e': "fetchCurrent cm sid = Inl e'"
    by (cases "fetchCurrent cm sid") (auto simp: q)
  show ?case
  proof (cases "cs = []")
    case True
    with Cons.prems(3) e' show ?thesis by (simp add: q)
  next
    case False
    with Cons.prems have "list_all (\<lambda>q. isl (fetchCurrent (snd q) sid)) cs"
      "fetchCurrent (snd (last cs)) sid = Inl e" by simp_all
    from Cons.IH[OF this(1) False this(2)] show ?thesis by (simp add: q e')
  qed
qed

lemma tryClients_asked:
  "\<exists>k\<le>length cs. snd (tryClients cs sid le asked) = asked @ map fst (take k cs)"
proof (induction cs arbitrary: le asked)
  case Nil
  then show ?case by simp
next
  case (Cons q cs)
  obtain m cm where q: "q = (m, cm)" by (cases q)
  show ?case
  proof (cases "fetchCurrent cm sid")
    case (Inr d)
    then have "snd (tryClients (q # cs) sid le asked) = asked @ map fst (take 1 (q # cs))"
      by (simp add: q)
    then show ?thesis by (intro exI[of _ 1]) simp
  next
    case (Inl e)
    from Cons.IH[of "Some e" "asked @ [m]"] obtain k where
      k: "k \<le> length cs" "snd (tryClients cs sid (Some e) (asked @ [m])) = (asked @ [m]) @ map fst (take k cs)"
      by blast
    then have "snd (tryClients (q # cs) sid le asked) = asked @ map fst (take (Suc k) (q # cs))"
      by (simp add: q Inl)
    with k(1) show ?thesis by (intro exI[of _ "Suc k"]) simp
  qed
qed

lemma Cache_get_after_set:
  "t \<le> t1 + ttl \<Longrightarrow> ttl \<noteq> 0 \<Longrightarrow> fst (Cache_get t key (Cache_set t1 key v (Some ttl) c)) = Some v"
  by (simp add: Cache_get_def Cache_set_def Let_def update_conv')

text \<open>
  The lookup of \<^verbatim>\<open>Cache.get\<close> read on the store: an entry whose expiry time is not yet
  passed is returned and touched; with no entry, or with one whose expiry time is passed,
  the result is a miss and the stale entry is removed.
\<close>

lemma Cache_get_hit:
  "map_of (store c) key = Some en \<Longrightarrow> ta \<le> expiresAt en \<Longrightarrow>
   Cache_get ta key c =
     (Some (entry_value en),
      c\<lparr>store := AList.update key (en\<lparr>hits := hits en + 1, lastAccessed := ta\<rparr>) (store c)\<rparr>)"
  by (simp add: Cache_get_def)

lemma Cache_get_miss:
  assumes "\<forall>x. map_of (store c) key = Some x \<longrightarrow> expiresAt x < ta"
  shows "Cache_get ta key c = (None, c\<lparr>store := AList.delete key (store c)\<rparr>)"
proof (cases "map_of (store c) key")
  case None
  then have "key \<notin> fst ` set (store c)" by (simp add: map_of_eq_None_iff)
  then have "AList.delete key (store c) = store c" by (rule delete_id)
  then show ?thesis using None by (simp add: Cache_get_def)
next
  case (Some x)
  with assms have "expiresAt x < ta" by simp
  with Some show ?thesis by (simp add: Cache_get_def)
qed

text \<open>
  The behaviour of \<^verbatim>\<open>getCurrentObservation\<close> in terms of what the lookup returned: on
  a returned value no client is asked; otherwise the clients asked are an initial
  segment of the configured list, in its order, so each is asked at most once; the first
  client that returns, preceded only by failing ones, gives the result, tagged with its
  name and stored under the station's key for 300000 ms; if every client fails, the
  failure of the last one is propagated and the cache is as the lookup left it.
\<close>

lemma getCurrentObservation_by_lookup:
  "(Cache_get ta (currentKey sid) c = (Some r, ca) \<longrightarrow>
      getCurrentObservation clients ta tb sid c = (Inr r, ca, []))
   \<and> (Cache_get ta (currentKey sid) c = (None, ca) \<longrightarrow>
        (\<exists>k\<le>length clients.
            snd (snd (getCurrentObservation clients ta tb sid c)) = map fst (take k clients)))
   \<and> (Cache_get ta (currentKey sid) c = (None, ca)
        \<and> clients = failed @ (n, cl) # rest
        \<and> list_all (\<lambda>q. isl (fetchCurrent (snd q) sid)) failed
        \<and> fetchCurrent cl sid = Inr d \<longrightarrow>
        (let result = \<lparr>payload = d, meta_source = n, meta_cached = False, meta_timestamp = tb\<rparr>;
             c2 = Cache_set tb (currentKey sid) result (Some 300000) ca
         in getCurrentObservation clients ta tb sid c = (Inr result, c2, map fst failed @ [n])
            \<and> (\<forall>t\<le>tb + 300000. fst (Cache_get t (currentKey sid) c2) = Some result)))
   \<and> (Cache_get ta (currentKey sid) c = (None, ca)
        \<and> clients \<noteq> []
        \<and> list_all (\<lambda>q. isl (fetchCurrent (snd q) sid)) clients
        \<and> fetchCurrent (snd (last clients)) sid = Inl e \<longrightarrow>
        getCurrentObservation clients ta tb sid c = (Inl e, ca, map fst clients))"
proof (intro conjI impI)
  assume "Cache_get ta (currentKey sid) c = (Some r, ca)"
  then show "getCurrentObservation clients ta tb sid c = (Inr r, ca, [])"
    by (simp add: getCurrentObservation_def)
next
  assume miss: "Cache_get ta (currentKey sid) c = (None, ca)"
  obtain k where k: "k \<le> length clients"
    "snd (tryClients clients sid None []) = [] @ map fst (take k clients)"
    using tryClients_asked[of clients sid None "[]"] by blast
  have "snd (snd (getCurrentObservation clients ta tb sid c)) = snd (tryClients clients sid None [])"
    by (cases "tryClients clients sid None []")
       (auto simp: getCurrentObservation_def miss Let_def split: sum.splits)
  with k show "\<exists>k\<le>length clients.
      snd (snd (getCurrentObservation clients ta tb sid c)) = map fst (take k clients)"
    by auto
next
  assume a: "Cache_get ta (currentKey sid) c = (None, ca)
        \<and> clients = failed @ (n, cl) # rest
        \<and> list_all (\<lambda>q. isl (fetchCurrent (snd q) sid)) failed
        \<and> fetchCurrent cl sid = Inr d"
  then have "tryClients clients sid None [] = (Inr (n, d), [] @ map fst failed @ [n])"
    using tryClients_first_success[of sid failed cl d n rest None "[]"] by simp
  with a show "let result = \<lparr>payload = d, meta_source = n, meta_cached = False, meta_timestamp = tb\<rparr>;
             c2 = Cache_set tb (currentKey sid) result (Some 300000) ca
         in getCurrentObservation clients ta tb sid c = (Inr result, c2, map fst failed @ [n])
            \<and> (\<forall>t\<le>tb + 300000. fst (Cache_get t (currentKey sid) c2) = Some result)"
    by (simp add: getCurrentObservation_def Let_def Cache_get_after_set)
next
  assume a: "Cache_get ta (currentKey sid) c = (None, ca)
        \<and> clients \<noteq> []
        \<and> list_all (\<lambda>q. isl (fetchCurrent (snd q) sid)) clients
        \<and> fetchCurrent (snd (last clients)) sid = Inl e"
  then have "tryClients clients sid None [] = (Inl e, [] @ map fst clients)"
    using tryClients_all_fail[of sid clients e None "[]"] by simp
  with a show "getCurrentObservation clients ta tb sid c = (Inl e, ca, map fst clients)"
    by (simp add: getCurrentObservation_def)
qed

text \<open>
  The same on the store, away from the expiry instant. With an entry under
  \<^verbatim>\<open>current:\<close> followed by the station id whose expiry time is still ahead
  (\<open>ta < expiresAt\<close>), the cached value is returned and no client is asked. With no such
  entry, or with one whose expiry time is passed (\<open>expiresAt < ta\<close>), the clients are
  tried in order as above. The instant \<open>ta = expiresAt\<close> is covered by neither part.
\<close>

lemma getCurrentObservation_failover_off_expiry:
  "(map_of (store c) (''current:'' @ sid) = Some en \<and> ta < expiresAt en \<longrightarrow>
      getCurrentObservation clients ta tb sid c =
        (Inr (entry_value en),
         c\<lparr>store := AList.update (''current:'' @ sid)
                      (en\<lparr>hits := hits en + 1, lastAccessed := ta\<rparr>) (store c)\<rparr>,
         []))
   \<and> ((\<forall>x. map_of (store c) (''current:'' @ sid) = Some x \<longrightarrow> expiresAt x < ta) \<longrightarrow>
        (\<exists>k\<le>length clients.
            snd (snd (getCurrentObservation clients ta tb sid c)) = map fst (take k clients)))
   \<and> ((\<forall>x. map_of (store c) (''current:'' @ sid) = Some x \<longrightarrow> expiresAt x < ta)
        \<and> clients = failed @ (n, cl) # rest
        \<and> list_all (\<lambda>q. isl (fetchCurrent (snd q) sid)) failed
        \<and> fetchCurrent cl sid = Inr d \<longrightarrow>
        (let result = \<lparr>payload = d, meta_source = n, meta_cached = False, meta_timestamp = tb\<rparr>;
             c2 = Cache_set tb (''current:'' @ sid) result (Some 300000)
                    (c\<lparr>store := AList.delete (''current:'' @ sid) (store c)\<rparr>)
         in getCurrentObservation clients ta tb sid c = (Inr result, c2, map fst failed @ [n])
            \<and> (\<forall>t\<le>tb + 300000. fst (Cache_get t (''current:'' @ sid) c2) = Some result)))
   \<and> ((\<forall>x. map_of (store c) (''current:'' @ sid) = Some x \<longrightarrow> expiresAt x < ta)
        \<and> clients \<noteq> []
        \<and> list_all (\<lambda>q. isl (fetchCurrent (snd q) sid)) clients
        \<and> fetchCurrent (snd (last clients)) sid = Inl e \<longrightarrow>
        getCurrentObservation clients ta tb sid c =
          (Inl e, c\<lparr>store := AList.delete (''current:'' @ sid) (store c)\<rparr>, map fst clients))"
proof -
  define key where "key = ''current:'' @ sid"
  have ck: "currentKey sid = key" by (simp add: currentKey_def key_def)
  note L = getCurrentObservation_by_lookup[of ta sid c _ _ clients tb, unfolded ck]
  have hit: "getCurrentObservation clients ta tb sid c =
        (Inr (entry_value en),
         c\<lparr>store := AList.update key (en\<lparr>hits := hits en + 1, lastAccessed := ta\<rparr>) (store c)\<rparr>,
         [])"
    if "map_of (store c) key = Some en \<and> ta < expiresAt en"
  proof -
    from that have "Cache_get ta key c =
      (Some (entry_value en),
       c\<lparr>store := AList.update key (en\<lparr>hits := hits en + 1, lastAccessed := ta\<rparr>) (store c)\<rparr>)"
      by (intro Cache_get_hit) simp_all
    with L[THEN conjunct1] show ?thesis by blast
  qed
  have miss: "Cache_get ta key c = (None, c\<lparr>store := AList.delete key (store c)\<rparr>)"
    if "\<forall>x. map_of (store c) key = Some x \<longrightarrow> expiresAt x < ta"
    using that by (rule Cache_get_miss)
  have P2: "\<exists>k\<le>length clients.
            snd (snd (getCurrentObservation clients ta tb sid c)) = map fst (take k clients)"
    if "\<forall>x. map_of (store c) key = Some x \<longrightarrow> expiresAt x < ta"
    using L[THEN conjunct2, THEN conjunct1] miss[OF that] by blast
  have P3: "let result = \<lparr>payload = d, meta_source = n, meta_cached = False, meta_timestamp = tb\<rparr>;
             c2 = Cache_set tb key result (Some 300000) (c\<lparr>store := AList.delete key (store c)\<rparr>)
         in getCurrentObservation clients ta tb sid c = (Inr result, c2, map fst failed @ [n])
            \<and> (\<forall>t\<le>tb + 300000. fst (Cache_get t key c2) = Some result)"
    if "(\<forall>x. map_of (store c) key = Some x \<longrightarrow> expiresAt x < ta)
        \<and> clients = failed @ (n, cl) # rest
        \<and> list_all (\<lambda>q. isl (fetchCurrent (snd q) sid)) failed
        \<and> fetchCurrent cl sid = Inr d"
  proof -
    from that have m: "Cache_get ta key c = (None, c\<lparr>store := AList.delete key (store c)\<rparr>)"
      by (intro miss) blast
    show ?thesis
      using L[THEN conjunct2, THEN conjunct2, THEN conjunct1,
              of "c\<lparr>store := AList.delete key (store c)\<rparr>" failed n cl rest d] m that
      by blast
  qed
  have P4: "getCurrentObservation clients ta tb sid c =
          (Inl e, c\<lparr>store := AList.delete key (store c)\<rparr>, map fst clients)"
    if "(\<forall>x. map_of (store c) key = Some x \<longrightarrow> expiresAt x < ta)
        \<and> clients \<noteq> []
        \<and> list_all (\<lambda>q. isl (fetchCurrent (snd q) sid)) clients
        \<and> fetchCurrent (snd (last clients)) sid = Inl e"
  proof -
    from that have m: "Cache_get ta key c = (None, c\<lparr>store := AList.delete key (store c)\<rparr>)"
      by (intro miss) blast
    show ?thesis
      using L[THEN conjunct2, THEN conjunct2, THEN conjunct2,
              of "c\<lparr>store := AList.delete key (store c)\<rparr>" e] m that
      by blast
  qed
  show ?thesis
    unfolding key_def[symmetric]
    using hit P2 P3 P4 by blast
qed

text \<open>
  C3: with no live entry for the station, the clients should be tried in order; an entry
  is live while the current time is strictly less than its expiry time. With an entry for
  station KSFO that expires at 1000 and a lookup at time 1000 there is no live entry, yet
  \<^verbatim>\<open>getCurrentObservation\<close> returns the cached value and asks no client, although both
  clients would serve: \<^verbatim>\<open>Cache.get\<close> tests \<^verbatim>\<open>Date.now() > entry.expiresAt\<close>. One
  millisecond later the entry is dropped, the primary client is asked once, and its data
  is returned tagged with its name and cached.
\<close>

theorem getCurrentObservation_hit_at_expiry_time:
  "\<not> (1000::int) < 1000
   \<and> getCurrentObservation
         (availableClients
            \<lparr>isAvailable = True, fetchCurrent = (\<lambda>s. Inr ''primary data'')\<rparr>
            \<lparr>isAvailable = True, fetchCurrent = (\<lambda>s. Inr ''backup data'')\<rparr>)
         1000 1200 ''KSFO''
         \<lparr>store = [(''current:KSFO'',
               \<lparr>entry_value = \<lparr>payload = ''cached data'', meta_source = ''synoptic'',
                                 meta_cached = False, meta_timestamp = 0\<rparr>,
                createdAt = 0, lastAccessed = 0, expiresAt = 1000, hits = 0\<rparr>)],
            maxSize = 1000, defaultTTL = 300000\<rparr>
       = (Inr \<lparr>payload = ''cached data'', meta_source = ''synoptic'', meta_cached = False,
               meta_timestamp = 0\<rparr>,
          \<lparr>store = [(''current:KSFO'',
               \<lparr>entry_value = \<lparr>payload = ''cached data'', meta_source = ''synoptic'',
                                 meta_cached = False, meta_timestamp = 0\<rparr>,
                createdAt = 0, lastAccessed = 1000, expiresAt = 1000, hits = 1\<rparr>)],
            maxSize = 1000, defaultTTL = 300000\<rparr>,
          [])
   \<and> getCurrentObservation
         (availableClients
            \<lparr>isAvailable = True, fetchCurrent = (\<lambda>s. Inr ''primary data'')\<rparr>
            \<lparr>isAvailable = True, fetchCurrent = (\<lambda>s. Inr ''backup data'')\<rparr>)
         1001 1200 ''KSFO''
         \<lparr>store = [(''current:KSFO'',
               \<lparr>entry_value = \<lparr>payload = ''cached data'', meta_source = ''synoptic'',
                                 meta_cached = False, meta_timestamp = 0\<rparr>,
                createdAt = 0, lastAccessed = 0, expiresAt = 1000, hits = 0\<rparr>)],
            maxSize = 1000, defaultTTL = 300000\<rparr>
       = (Inr \<lparr>payload = ''primary data'', meta_source = ''synoptic'', meta_cached = False,
               meta_timestamp = 1200\<rparr>,
          \<lparr>store = [(''current:KSFO'',
               \<lparr>entry_value = \<lparr>payload = ''primary data'', meta_source = ''synoptic'',
                                 meta_cached = False, meta_timestamp = 1200\<rparr>,
                createdAt = 1200, lastAccessed = 1200, expiresAt = 301200, hits = 0\<rparr>)],
            maxSize = 1000, defaultTTL = 300000\<rparr>,
          [''synoptic''])"
  by (simp add: getCurrentObservation_def currentKey_def Cache_get_def availableClients_def
      Cache_set_def Let_def)

section \<open>The transformer: precondition, warnings, extreme changes\<close>

text \<open>
  C7: the transformer fails with the missing-required-field error if and only if at
  least one of temperature, humidity and wind speed is null. When the three are present
  the only failure left is the schema's.
\<close>

theorem transformToWildfireSchema_missing_required_iff:
  "(\<exists>missing. transformToWildfireSchema now rawsData nwsAlerts historicalData
        = Inl (MissingRequiredField missing))
   = (temperature rawsData = None \<or> relativeHumidity rawsData = None \<or> windSpeed rawsData = None)"
  by (auto simp: transformToWildfireSchema_def validateRequiredFields_def wildfireSchema_parse_def
      split: sum.splits if_splits)

text \<open>
  What the threshold detection does when no alert is translated, and that translated
  alerts suppress it.
\<close>

lemma transformRedFlagWarnings_thresholds:
  "concat (map (alert_warnings now) nwsAlerts) = [] \<Longrightarrow>
   map level (transformRedFlagWarnings now rawsData nwsAlerts) =
     (if isRedFlagConditions (relativeHumidity rawsData)
           (Some (max (to_num (windSpeed rawsData)) (num_or (windGust rawsData) 0))) False
      then [RedFlag]
      else if to_num (relativeHumidity rawsData) < 25 \<and> to_num (windSpeed rawsData) > 15
      then [Watch]
      else [])"
  by (simp add: transformRedFlagWarnings_def)

lemma transformRedFlagWarnings_alerts:
  "concat (map (alert_warnings now) nwsAlerts) \<noteq> [] \<Longrightarrow>
   transformRedFlagWarnings now rawsData nwsAlerts = concat (map (alert_warnings now) nwsAlerts)"
  unfolding transformRedFlagWarnings_def Let_def by (simp only: length_0_conv if_False)

text \<open>
  C1: with no alert supplied, a "Red Flag" entry should appear only when humidity is below
  15 and the greater of wind speed and gust is above 25, and a "Watch" entry when that
  fails, humidity is below 25 and wind speed is above 15. At humidity 18 and wind speed 22
  without gust the strict test is false and the Watch condition holds, yet the single
  entry is of the "Red Flag" tier: \<^verbatim>\<open>isRedFlagConditions\<close> is called without the strict
  flag and applies its relaxed test.
\<close>

theorem transformRedFlagWarnings_relaxed_threshold:
  "isRedFlagConditions (Some 18) (Some (max 22 0)) True = False
   \<and> map level (transformRedFlagWarnings 1700000000000
        \<lparr>temperature = Some 70, relativeHumidity = Some 18, windSpeed = Some 22,
         windGust = None, windDirection = None, precipAccum = None, fuelMoisture = None\<rparr> [])
      = [RedFlag]"
  by (simp add: transformRedFlagWarnings_def isRedFlagConditions_def to_num_def num_or_def)

text \<open>
  C2: with a historical series whose wind speed rises by 20 mph within one hour, the
  transformer should return a document with one entry for the rise. The entry that
  \<^verbatim>\<open>detectExtremeChanges\<close> builds has the members \<^verbatim>\<open>type\<close>, \<^verbatim>\<open>value\<close>, \<^verbatim>\<open>time\<close> and
  \<^verbatim>\<open>description\<close>; the schema requires \<^verbatim>\<open>parameter\<close>, \<^verbatim>\<open>change\<close>, \<^verbatim>\<open>magnitude\<close> and
  \<^verbatim>\<open>time_frame\<close>, so the validation fails and the transformer throws. The same
  observation without history is transformed.
\<close>

theorem transformToWildfireSchema_rejects_detected_change:
  "transformExtremeChanges
      \<lparr>temperature = Some 70, relativeHumidity = Some 50, windSpeed = Some 20,
       windGust = None, windDirection = None, precipAccum = None, fuelMoisture = None\<rparr>
      [\<lparr>ts_timestamp = 0, ts_windSpeed = 0, ts_humidity = 50, ts_temperature = 70\<rparr>,
       \<lparr>ts_timestamp = 3600000, ts_windSpeed = 20, ts_humidity = 50, ts_temperature = 70\<rparr>]
    = [Detected ''wind_increase'' 20 3600000
         [Lit ''Wind increased by '', Num 20, Lit '' mph in '', Num 60, Lit '' minutes'']]
   \<and> transformToWildfireSchema 1700000000000
      \<lparr>temperature = Some 70, relativeHumidity = Some 50, windSpeed = Some 20,
       windGust = None, windDirection = None, precipAccum = None, fuelMoisture = None\<rparr>
      []
      [\<lparr>ts_timestamp = 0, ts_windSpeed = 0, ts_humidity = 50, ts_temperature = 70\<rparr>,
       \<lparr>ts_timestamp = 3600000, ts_windSpeed = 20, ts_humidity = 50, ts_temperature = 70\<rparr>]
    = Inl SchemaValidationError
   \<and> isl (transformToWildfireSchema 1700000000000
      \<lparr>temperature = Some 70, relativeHumidity = Some 50, windSpeed = Some 20,
       windGust = None, windDirection = None, precipAccum = None, fuelMoisture = None\<rparr>
      [] []) = False"
  by (simp add: transformExtremeChanges_def detectExtremeChanges_def sort_key_def pair_changes_def
      to_num_def truthy_num_def Math_round_def transformToWildfireSchema_def validateRequiredFields_def
      build_weather_risks_def wildfireSchema_parse_def change_entry_valid_def round_js_def
      estimateWindGust_def estimateProbabilityOfRain_def num_or_def transformRedFlagWarnings_def
      isRedFlagConditions_def)

end
